theory Spec2Isabelle
  imports Main
begin


section \<open>Data model (src/types.ts)\<close>

text \<open>
  The TypeScript interfaces of \<^verbatim>\<open>types.ts\<close> as records and datatypes.  A field the
  interface marks optional (\<^verbatim>\<open>contacts?\<close>, \<^verbatim>\<open>messages?\<close>, \<^verbatim>\<open>text?\<close>, \<^verbatim>\<open>profile?\<close>)
  is an \<open>option\<close>; an array is a list.  A JavaScript \<^verbatim>\<open>Date\<close> is either a time
  value in milliseconds or the invalid date.
\<close>

datatype MessageRole = User | Assistant | System

datatype date = Date int | InvalidDate

record Message =
  role :: MessageRole
  content :: string
  timestamp :: date

record WhatsAppContact =
  wa_id :: string
  profile_name :: "string option"

datatype WhatsAppMessageType = TypeText | TypeAudio | TypeImage | TypeVideo

text \<open>\<open>msg_text_body m\<close> is \<^verbatim>\<open>m.text?.body\<close>: \<open>None\<close> when \<^verbatim>\<open>text\<close> is absent.\<close>

record WhatsAppMessage =
  msg_id :: string
  msg_from :: string
  msg_timestamp :: string
  msg_type :: WhatsAppMessageType
  msg_text_body :: "string option"

record WebhookMetadata =
  display_phone_number :: string
  phone_number_id :: string

record WebhookValue =
  messaging_product :: string
  metadata :: WebhookMetadata
  contacts :: "WhatsAppContact list option"
  messages :: "WhatsAppMessage list option"

record WebhookChange =
  change_value :: WebhookValue

record WebhookEntry =
  changes :: "WebhookChange list"

record WhatsAppWebhookPayload =
  entry :: "WebhookEntry list"

section \<open>The outside world\<close>

text \<open>
  Everything the code reaches outside itself is a field of \<open>world\<close>: the HTTP client
  \<^verbatim>\<open>fetch\<close>, the AI SDK's \<^verbatim>\<open>generateText\<close>, the clock \<^verbatim>\<open>new Date()\<close> and the built-in
  conversion \<^verbatim>\<open>new Date(parseInt(s) * 1000)\<close>.  A call that throws (a rejected promise)
  returns \<open>Inl\<close> of the error's message; a call that returns gives \<open>Inr\<close>.  Within one
  run of \<^verbatim>\<open>processMessage\<close> each request is issued at most once, so a function from the
  request to its outcome covers every behaviour of the collaborators.
\<close>

datatype request =
  TextMessageRequest (req_to: string) (req_body: string)
| ReadRequest (req_message_id: string) (req_typing_indicator: bool)

record response =
  resp_ok :: bool
  resp_text :: "string + string"

record CoreMessage =
  core_role :: MessageRole
  core_content :: string

record GenerateTextArgs =
  gen_model :: string
  gen_system :: string
  gen_messages :: "CoreMessage list"
  gen_temperature :: nat

record world =
  fetch :: "request \<Rightarrow> string + response"
  generateText :: "GenerateTextArgs \<Rightarrow> string + string"
  dateOfSeconds :: "string \<Rightarrow> date"
  now :: date

text \<open>The calls made to the collaborators, in the order they are made.\<close>

datatype call = Fetch request | GenerateText GenerateTextArgs

section \<open>WhatsApp API service (src/services/whatsapp.ts)\<close>

text \<open>
  \<^verbatim>\<open>sendTextMessage\<close> posts the text; when the response is not ok it throws an error
  whose message starts with \<^verbatim>\<open>Failed to send WhatsApp message: \<close>.  A rejected
  \<^verbatim>\<open>fetch\<close> or a failing \<^verbatim>\<open>response.text()\<close> propagates.
\<close>

definition sendTextMessage :: "world \<Rightarrow> string \<Rightarrow> string \<Rightarrow> (string + unit) \<times> call list" where
  "sendTextMessage w message recipient =
     (let payload = TextMessageRequest recipient message in
      (case fetch w payload of
         Inl e \<Rightarrow> Inl e
       | Inr resp \<Rightarrow>
           if \<not> resp_ok resp then
             (case resp_text resp of
                Inl e \<Rightarrow> Inl e
              | Inr err \<Rightarrow> Inl (''Failed to send WhatsApp message: '' @ err))
           else Inr (),
       [Fetch payload]))"

text \<open>
  \<^verbatim>\<open>markMessageAsRead\<close> only warns when the response is not ok; it throws when
  \<^verbatim>\<open>fetch\<close> rejects or the body of a response that is not ok cannot be read.
\<close>

definition markMessageAsRead :: "world \<Rightarrow> string \<Rightarrow> bool \<Rightarrow> (string + unit) \<times> call list" where
  "markMessageAsRead w messageId showTyping =
     (let payload = ReadRequest messageId showTyping in
      (case fetch w payload of
         Inl e \<Rightarrow> Inl e
       | Inr resp \<Rightarrow>
           if \<not> resp_ok resp then
             (case resp_text resp of Inl e \<Rightarrow> Inl e | Inr warning \<Rightarrow> Inr ())
           else Inr (),
       [Fetch payload]))"

section \<open>Conversation Durable Object (src/durable-objects/conversation.ts)\<close>

definition SYSTEM_PROMPT :: string where
  "SYSTEM_PROMPT =
     ''You are a helpful AI assistant communicating via WhatsApp.'' @ [CHR 0x0A] @
     ''Be friendly, concise, and helpful. Keep your responses conversational and not too long.''"

definition MAX_MESSAGES :: nat where
  "MAX_MESSAGES = 20"

text \<open>
  The object's storage holds one key, \<^verbatim>\<open>'messages'\<close>: \<open>None\<close> when the key is absent,
  \<open>Some h\<close> when it holds the array \<open>h\<close>.  \<^verbatim>\<open>storage.get\<close> hands out a copy of the
  stored value, so a list value is the right model.
\<close>

type_synonym storage = "Message list option"

text \<open>
\<^verbatim>\<open>history || []\<close>: an absent key reads as the empty history; a stored array, even
  an empty one, is truthy and is returned as it is.
\<close>

definition getHistory :: "storage \<Rightarrow> Message list" where
  "getHistory st = (case st of None \<Rightarrow> [] | Some history \<Rightarrow> history)"

text \<open>\<^verbatim>\<open>xs.slice(-n)\<close> for \<open>n > 0\<close>: the elements from index \<open>max (length xs - n) 0\<close> on.\<close>

definition slice_last :: "nat \<Rightarrow> 'a list \<Rightarrow> 'a list" where
  "slice_last n xs = drop (length xs - n) xs"

definition addMessage :: "Message \<Rightarrow> storage \<Rightarrow> storage" where
  "addMessage message st =
     (let history = getHistory st @ [message];
          trimmedHistory =
            (if length history > MAX_MESSAGES then slice_last MAX_MESSAGES history
             else history)
      in Some trimmedHistory)"

text \<open>
\<^verbatim>\<open>storage.delete('messages')\<close> removes the key.
\<close>

definition clearHistory :: "storage \<Rightarrow> storage" where
  "clearHistory st = None"

text \<open>
The conversion to the AI SDK's format keeps the role and the content, not the timestamp.
\<close>

definition toCore :: "Message \<Rightarrow> CoreMessage" where
  "toCore msg = \<lparr>core_role = role msg, core_content = content msg\<rparr>"

definition EMPTY_REPLY_FALLBACK :: string where
  "EMPTY_REPLY_FALLBACK = ''I'' @ [CHR 0x27] @ ''m sorry, I couldn'' @ [CHR 0x27] @ ''t generate a response.''"

definition APOLOGY :: string where
  "APOLOGY = ''I apologize, but I encountered an error. Please try again.''"

text \<open>
  \<^verbatim>\<open>generateResponse\<close> never throws: its \<^verbatim>\<open>catch\<close> returns the apology, and
  \<^verbatim>\<open>result.text || ...\<close> replaces an empty text by the fallback sentence.
\<close>

definition generateResponse :: "world \<Rightarrow> Message list \<Rightarrow> string \<times> call list" where
  "generateResponse w msgs =
     (let coreMessages = map toCore msgs;
          args = \<lparr>gen_model = ''gpt-5-mini'', gen_system = SYSTEM_PROMPT,
                  gen_messages = coreMessages, gen_temperature = 1\<rparr>
      in (case generateText w args of
            Inl e \<Rightarrow> APOLOGY
          | Inr text \<Rightarrow> if text = [] then EMPTY_REPLY_FALLBACK else text,
          [GenerateText args]))"

text \<open>The arguments \<^verbatim>\<open>generateResponse\<close> hands to \<^verbatim>\<open>generateText\<close> for the messages \<open>msgs\<close>.\<close>

definition generateArgs :: "Message list \<Rightarrow> GenerateTextArgs" where
  "generateArgs msgs = \<lparr>gen_model = ''gpt-5-mini'', gen_system = SYSTEM_PROMPT,
     gen_messages = map toCore msgs, gen_temperature = 1\<rparr>"

record ProcessResult =
  success :: bool
  error :: "string option"
  response_text :: "string option"

definition failure :: "string \<Rightarrow> ProcessResult" where
  "failure e = \<lparr>success = False, error = Some e, response_text = None\<rparr>"

text \<open>
\<^verbatim>\<open>xs?.[0]\<close> on an array: \<^verbatim>\<open>undefined\<close> when the array is empty.
\<close>

definition first :: "'a list \<Rightarrow> 'a option" where
  "first xs = (case xs of [] \<Rightarrow> None | x # rest \<Rightarrow> Some x)"

text \<open>
  \<^verbatim>\<open>const entry = webhookData.entry?.[0]; const changes = entry?.changes?.[0];\<close>
  The same two lines open \<^verbatim>\<open>processMessage\<close> and the handler of \<^verbatim>\<open>POST /webhook\<close>.
\<close>

definition firstChange :: "WhatsAppWebhookPayload \<Rightarrow> WebhookChange option" where
  "firstChange webhookData =
     (let entry0 = first (entry webhookData) in Option.bind entry0 (\<lambda>e. first (changes e)))"

definition TEXT_ONLY_NOTICE :: string where
  "TEXT_ONLY_NOTICE = ''Sorry, I can only process text messages in this demo.''"

text \<open>
  \<^verbatim>\<open>processMessage\<close> returns its result, the storage it leaves and the calls it made.
  The \<^verbatim>\<open>try\<close> around \<^verbatim>\<open>markMessageAsRead\<close> discards the outcome; the \<^verbatim>\<open>try\<close> around the
  whole body turns the only other throw that can reach it (the unguarded
  \<^verbatim>\<open>sendTextMessage\<close> of the text-only notice) into a failure carrying the error's
  message.  Writes made before a throw stay written.  The storage calls of the Durable
  Object (\<^verbatim>\<open>get\<close>, \<^verbatim>\<open>put\<close>, \<^verbatim>\<open>delete\<close>) are taken to succeed, and the payload to
  have the shape its TypeScript type gives it.
\<close>

definition processMessage ::
  "world \<Rightarrow> WhatsAppWebhookPayload \<Rightarrow> storage \<Rightarrow> ProcessResult \<times> storage \<times> call list" where
  "processMessage w webhookData st =
     (case firstChange webhookData of
        None \<Rightarrow> (failure ''Invalid webhook data'', st, [])
      | Some chg \<Rightarrow>
          if messages (change_value chg) = None \<or> contacts (change_value chg) = None
          then (failure ''Invalid webhook data'', st, [])
          else
            (let v = change_value chg in
             case (Option.bind (contacts v) first, Option.bind (messages v) first) of
               (None, _) \<Rightarrow> (failure ''Missing contact or message'', st, [])
             | (Some contact, None) \<Rightarrow> (failure ''Missing contact or message'', st, [])
             | (Some contact, Some message) \<Rightarrow>
                 (let waId = wa_id contact;
                      messageId = msg_id message;
                      messageTimestamp = dateOfSeconds w (msg_timestamp message);
                      (receipt, calls1) = markMessageAsRead w messageId True
                  in
                  if msg_type message \<noteq> TypeText \<or> msg_text_body message = None
                       \<or> msg_text_body message = Some []
                  then
                    (case sendTextMessage w TEXT_ONLY_NOTICE waId of
                       (Inl e, calls2) \<Rightarrow> (failure e, st, calls1 @ calls2)
                     | (Inr u, calls2) \<Rightarrow>
                         (failure ''Unsupported message type'', st, calls1 @ calls2))
                  else
                    (let body = the (msg_text_body message);
                         history = getHistory st;
                         userMessage = \<lparr>role = User, content = body,
                                         timestamp = messageTimestamp\<rparr>;
                         st1 = addMessage userMessage st;
                         (reply, calls3) = generateResponse w (history @ [userMessage]);
                         assistantMessage = \<lparr>role = Assistant, content = reply,
                                              timestamp = now w\<rparr>;
                         st2 = addMessage assistantMessage st1
                     in
                     case sendTextMessage w reply waId of
                       (Inl e, calls4) \<Rightarrow>
                         (failure ''Failed to send WhatsApp message'', st2,
                          calls1 @ calls3 @ calls4)
                     | (Inr u, calls4) \<Rightarrow>
                         (\<lparr>success = True, error = None, response_text = Some reply\<rparr>, st2,
                          calls1 @ calls3 @ calls4)))))"

section \<open>Dispatcher (src/worker.ts, POST /webhook)\<close>

text \<open>
  The JSON bodies the handler answers with, and the status.  Every Durable Object has its
  own storage; \<^verbatim>\<open>idFromName(waId)\<close> picks the object, so the stores of all objects are a
  function from the name to the storage.  The handler is modelled from the parsed body
  on; \<^verbatim>\<open>processMessage\<close> catches every throw itself, so the handler's own \<^verbatim>\<open>catch\<close>
  is never entered after parsing.
\<close>

datatype json_body =
  MessageBody string
| MessageErrorBody string "string option"
| ErrorBody string

record http_response =
  status :: nat
  json :: json_body

type_synonym stores = "string \<Rightarrow> storage"

definition post_webhook ::
  "world \<Rightarrow> WhatsAppWebhookPayload \<Rightarrow> stores \<Rightarrow> http_response \<times> stores \<times> call list" where
  "post_webhook w body ss =
     (case firstChange body of
        None \<Rightarrow> (\<lparr>status = 200, json = MessageBody ''Not a valid message object''\<rparr>, ss, [])
      | Some chg \<Rightarrow>
          if messages (change_value chg) = None \<or> contacts (change_value chg) = None
          then (\<lparr>status = 200, json = MessageBody ''Not a valid message object''\<rparr>, ss, [])
          else
            (let v = change_value chg in
             case (Option.bind (contacts v) first, Option.bind (messages v) first) of
               (None, _) \<Rightarrow> (\<lparr>status = 200, json = MessageBody ''Invalid webhook data''\<rparr>, ss, [])
             | (Some contact, None) \<Rightarrow>
                 (\<lparr>status = 200, json = MessageBody ''Invalid webhook data''\<rparr>, ss, [])
             | (Some contact, Some message) \<Rightarrow>
                 (let waId = wa_id contact;
                      (result, st', calls) = processMessage w body (ss waId);
                      ss' = ss(waId := st')
                  in
                  if success result
                  then (\<lparr>status = 200, json = MessageBody ''Message processed successfully''\<rparr>,
                        ss', calls)
                  else (\<lparr>status = 500,
                          json = MessageErrorBody ''Processing failed'' (error result)\<rparr>,
                        ss', calls))))"

section \<open>Observing a run\<close>

text \<open>
  What a run handed to the Response Generator: the message sequence of every
  \<^verbatim>\<open>generateText\<close> call among the calls, in order.
\<close>

definition generatorInputs :: "call list \<Rightarrow> CoreMessage list list" where
  "generatorInputs calls =
     concat (map (\<lambda>c. case c of GenerateText a \<Rightarrow> [gen_messages a] | Fetch r \<Rightarrow> []) calls)"

text \<open>
  What a run sent through the Delivery Channel: the (text, recipient) pair of every
  text-send request among the calls, in order.  Read receipts are not sends.
\<close>

definition textSends :: "call list \<Rightarrow> (string \<times> string) list" where
  "textSends calls =
     concat (map (\<lambda>c. case c of Fetch (TextMessageRequest t b) \<Rightarrow> [(b, t)]
                          | Fetch (ReadRequest i ty) \<Rightarrow> []
                          | GenerateText a \<Rightarrow> []) calls)"

text \<open>
  The storage states a Durable Object can be in: fresh storage holds no key, and the two
  public methods \<^verbatim>\<open>processMessage\<close> (for any payload, in any world) and
  \<^verbatim>\<open>clearHistory\<close> lead from one state to the next.
\<close>

inductive reachable :: "storage \<Rightarrow> bool" where
  fresh: "reachable None"
| process: "reachable st \<Longrightarrow> reachable (fst (snd (processMessage w p st)))"
| clear: "reachable st \<Longrightarrow> reachable (clearHistory st)"

text \<open>
  A payload cut down to what stands first: only the first entry, of it only the first
  change, and of that change's contacts and messages only the first of each (an absent
  array stays absent, an empty one stays empty).
\<close>

definition firstOnlyValue :: "WebhookValue \<Rightarrow> WebhookValue" where
  "firstOnlyValue v = v\<lparr>contacts := map_option (take 1) (contacts v),
                          messages := map_option (take 1) (messages v)\<rparr>"

definition firstOnly :: "WhatsAppWebhookPayload \<Rightarrow> WhatsAppWebhookPayload" where
  "firstOnly p =
     \<lparr>entry = map (\<lambda>e. \<lparr>changes = map (\<lambda>c. \<lparr>change_value = firstOnlyValue (change_value c)\<rparr>)
                                      (take 1 (changes e))\<rparr>)
                  (take 1 (entry p))\<rparr>"

section \<open>Example inputs\<close>

text \<open>
  Concrete payloads, worlds and histories at which the theorems below are instantiated.
  \<open>example_payload cs ms\<close> is a payload of one entry with one change whose value holds
  the contacts \<open>cs\<close> and the messages \<open>ms\<close>.
\<close>

definition example_contact :: WhatsAppContact where
  "example_contact = \<lparr>wa_id = ''15550100'', profile_name = Some ''Ada''\<rparr>"

definition other_contact :: WhatsAppContact where
  "other_contact = \<lparr>wa_id = ''15550199'', profile_name = None\<rparr>"

definition text_message :: "string \<Rightarrow> WhatsAppMessage" where
  "text_message b = \<lparr>msg_id = ''wamid.1'', msg_from = ''15550100'',
     msg_timestamp = ''1700000000'', msg_type = TypeText, msg_text_body = Some b\<rparr>"

definition image_message :: WhatsAppMessage where
  "image_message = \<lparr>msg_id = ''wamid.2'', msg_from = ''15550100'',
     msg_timestamp = ''1700000000'', msg_type = TypeImage, msg_text_body = None\<rparr>"

definition example_value ::
  "WhatsAppContact list option \<Rightarrow> WhatsAppMessage list option \<Rightarrow> WebhookValue" where
  "example_value cs ms = \<lparr>messaging_product = ''whatsapp'',
     metadata = \<lparr>display_phone_number = ''15550000'', phone_number_id = ''1234''\<rparr>,
     contacts = cs, messages = ms\<rparr>"

definition example_payload ::
  "WhatsAppContact list option \<Rightarrow> WhatsAppMessage list option \<Rightarrow> WhatsAppWebhookPayload" where
  "example_payload cs ms =
     \<lparr>entry = [\<lparr>changes = [\<lparr>change_value = example_value cs ms\<rparr>]\<rparr>]\<rparr>"

definition hello_payload :: WhatsAppWebhookPayload where
  "hello_payload = example_payload (Some [example_contact]) (Some [text_message ''Hello''])"

definition image_payload :: WhatsAppWebhookPayload where
  "image_payload = example_payload (Some [example_contact]) (Some [image_message])"


definition crowded_payload :: WhatsAppWebhookPayload where
  "crowded_payload =
     \<lparr>entry = [\<lparr>changes = [\<lparr>change_value = example_value
                    (Some [example_contact, other_contact])
                    (Some [text_message ''Hello'', image_message, text_message ''Again''])\<rparr>,
                  \<lparr>change_value = example_value (Some [other_contact])
                    (Some [text_message ''Second change''])\<rparr>]\<rparr>,
               \<lparr>changes = [\<lparr>change_value = example_value (Some [other_contact])
                    (Some [text_message ''Second entry''])\<rparr>]\<rparr>]\<rparr>"

definition http_ok :: "string + response" where
  "http_ok = Inr \<lparr>resp_ok = True, resp_text = Inr ''{}''\<rparr>"

definition http_error :: "string + response" where
  "http_error = Inr \<lparr>resp_ok = False, resp_text = Inr ''token expired''\<rparr>"

definition example_world ::
  "(request \<Rightarrow> string + response) \<Rightarrow> (GenerateTextArgs \<Rightarrow> string + string) \<Rightarrow> world" where
  "example_world f g = \<lparr>fetch = f, generateText = g,
     dateOfSeconds = (\<lambda>s. Date 1700000000000), now = Date 1700000001000\<rparr>"

definition fetch_all_ok :: "request \<Rightarrow> string + response" where
  "fetch_all_ok r = http_ok"

definition fetch_send_fails :: "request \<Rightarrow> string + response" where
  "fetch_send_fails r =
     (case r of TextMessageRequest t b \<Rightarrow> http_error | ReadRequest i t \<Rightarrow> http_ok)"

definition fetch_read_fails :: "request \<Rightarrow> string + response" where
  "fetch_read_fails r =
     (case r of TextMessageRequest t b \<Rightarrow> http_ok | ReadRequest i t \<Rightarrow> Inl ''network error'')"

definition generate_hi :: "GenerateTextArgs \<Rightarrow> string + string" where
  "generate_hi a = Inr ''Hi! How can I help?''"

definition generate_fails :: "GenerateTextArgs \<Rightarrow> string + string" where
  "generate_fails a = Inl ''rate limited''"


definition example_message :: "nat \<Rightarrow> Message" where
  "example_message k = \<lparr>role = (if even k then User else Assistant), content = ''hello'',
     timestamp = Date (int k)\<rparr>"

definition example_history :: "nat \<Rightarrow> Message list" where
  "example_history n = map example_message [0..<n]"

definition user_hello :: Message where
  "user_hello = \<lparr>role = User, content = ''Hello'', timestamp = Date 1700000000000\<rparr>"

definition hi_reply :: Message where
  "hi_reply = \<lparr>role = Assistant, content = ''Hi! How can I help?'',
     timestamp = Date 1700000001000\<rparr>"

definition apology_reply :: Message where
  "apology_reply = \<lparr>role = Assistant, content = APOLOGY, timestamp = Date 1700000001000\<rparr>"

section \<open>The shape of a run of processMessage\<close>

lemma snd_markMessageAsRead:
  "snd (markMessageAsRead w i t) = [Fetch (ReadRequest i t)]"
  by (simp add: markMessageAsRead_def Let_def)

lemma snd_sendTextMessage:
  "snd (sendTextMessage w msg r) = [Fetch (TextMessageRequest r msg)]"
  by (simp add: sendTextMessage_def Let_def)

lemma snd_generateResponse:
  "snd (generateResponse w msgs) = [GenerateText (generateArgs msgs)]"
  by (simp add: generateResponse_def generateArgs_def Let_def)

lemma fst_generateResponse:
  "fst (generateResponse w msgs) =
     (case generateText w (generateArgs msgs) of
        Inl e \<Rightarrow> APOLOGY
      | Inr text \<Rightarrow> if text = [] then EMPTY_REPLY_FALLBACK else text)"
  by (simp add: generateResponse_def generateArgs_def Let_def)

lemma processMessage_text:
  assumes "firstChange p = Some c"
    and "contacts (change_value c) = Some (ct # cts)"
    and "messages (change_value c) = Some (m # ms)"
    and "msg_type m = TypeText" and "msg_text_body m = Some b" and "b \<noteq> []"
  shows "processMessage w p st =
     (let u = \<lparr>role = User, content = b, timestamp = dateOfSeconds w (msg_timestamp m)\<rparr>;
          reply = fst (generateResponse w (getHistory st @ [u]));
          a = \<lparr>role = Assistant, content = reply, timestamp = now w\<rparr>
      in ((case fst (sendTextMessage w reply (wa_id ct)) of
             Inl x \<Rightarrow> failure ''Failed to send WhatsApp message''
           | Inr x \<Rightarrow> \<lparr>success = True, error = None, response_text = Some reply\<rparr>),
          addMessage a (addMessage u st),
          [Fetch (ReadRequest (msg_id m) True),
           GenerateText (generateArgs (getHistory st @ [u])),
           Fetch (TextMessageRequest (wa_id ct) reply)]))"
  using assms
  by (simp add: processMessage_def first_def Let_def split_beta snd_markMessageAsRead
      snd_generateResponse snd_sendTextMessage split: sum.splits)

lemma processMessage_unsupported:
  assumes "firstChange p = Some c"
    and "contacts (change_value c) = Some (ct # cts)"
    and "messages (change_value c) = Some (m # ms)"
    and "msg_type m \<noteq> TypeText \<or> msg_text_body m = None \<or> msg_text_body m = Some []"
  shows "processMessage w p st =
     ((case fst (sendTextMessage w TEXT_ONLY_NOTICE (wa_id ct)) of
         Inl x \<Rightarrow> failure x
       | Inr x \<Rightarrow> failure ''Unsupported message type''),
      st,
      [Fetch (ReadRequest (msg_id m) True),
       Fetch (TextMessageRequest (wa_id ct) TEXT_ONLY_NOTICE)])"
  using assms
  by (auto simp add: processMessage_def first_def Let_def split_beta snd_markMessageAsRead
      snd_sendTextMessage split: sum.splits)

lemma processMessage_invalid:
  assumes "case firstChange p of None \<Rightarrow> True
           | Some c \<Rightarrow> contacts (change_value c) = None \<or> messages (change_value c) = None"
  shows "processMessage w p st = (failure ''Invalid webhook data'', st, [])"
  using assms
  by (auto simp add: processMessage_def split: option.splits)

lemma processMessage_missing:
  assumes "firstChange p = Some c"
    and "contacts (change_value c) = Some cts"
    and "messages (change_value c) = Some ms"
    and "cts = [] \<or> ms = []"
  shows "processMessage w p st = (failure ''Missing contact or message'', st, [])"
  using assms
  by (auto simp add: processMessage_def first_def split: list.splits)

lemma post_webhook_invalid:
  assumes "case firstChange p of None \<Rightarrow> True
           | Some c \<Rightarrow> contacts (change_value c) = None \<or> messages (change_value c) = None"
  shows "post_webhook w p ss =
           (\<lparr>status = 200, json = MessageBody ''Not a valid message object''\<rparr>, ss, [])"
  using assms
  by (auto simp add: post_webhook_def split: option.splits)

lemma post_webhook_missing:
  assumes "firstChange p = Some c"
    and "contacts (change_value c) = Some cts"
    and "messages (change_value c) = Some ms"
    and "cts = [] \<or> ms = []"
  shows "post_webhook w p ss =
           (\<lparr>status = 200, json = MessageBody ''Invalid webhook data''\<rparr>, ss, [])"
  using assms
  by (auto simp add: post_webhook_def first_def split: list.splits)

text \<open>
  Every run of \<^verbatim>\<open>processMessage\<close> is one of four: the payload is invalid, a contact or
  message is missing, the message is not a text with a body, or it is.
\<close>

lemma processMessage_cases:
  obtains (invalid) "processMessage w p st = (failure ''Invalid webhook data'', st, [])"
  | (missing) "processMessage w p st = (failure ''Missing contact or message'', st, [])"
  | (unsupported) c ct cts m ms where "firstChange p = Some c"
      and "contacts (change_value c) = Some (ct # cts)"
      and "messages (change_value c) = Some (m # ms)"
      and "msg_type m \<noteq> TypeText \<or> msg_text_body m = None \<or> msg_text_body m = Some []"
  | (plain) c ct cts m ms b where "firstChange p = Some c"
      and "contacts (change_value c) = Some (ct # cts)"
      and "messages (change_value c) = Some (m # ms)"
      and "msg_type m = TypeText" and "msg_text_body m = Some b" and "b \<noteq> []"
proof (cases "firstChange p")
  case None
  then show ?thesis using invalid by (simp add: processMessage_invalid)
next
  case c: (Some c)
  show ?thesis
  proof (cases "contacts (change_value c)")
    case None
    with c show ?thesis using invalid by (simp add: processMessage_invalid)
  next
    case cs: (Some cs)
    show ?thesis
    proof (cases "messages (change_value c)")
      case None
      with c show ?thesis using invalid by (simp add: processMessage_invalid)
    next
      case mss: (Some mss)
      show ?thesis
      proof (cases "cs = [] \<or> mss = []")
        case True
        from processMessage_missing [OF c cs mss True] show ?thesis by (rule missing)
      next
        case False
        then obtain ct cts m ms where l: "cs = ct # cts" "mss = m # ms"
          by (cases cs; cases mss) auto
        show ?thesis
        proof (cases "msg_type m \<noteq> TypeText \<or> msg_text_body m = None
            \<or> msg_text_body m = Some []")
          case True
          with c cs mss l show ?thesis using unsupported by blast
        next
          case False
          then obtain b where "msg_type m = TypeText" "msg_text_body m = Some b" "b \<noteq> []"
            by (cases "msg_text_body m") auto
          with c cs mss l show ?thesis using plain by blast
        qed
      qed
    qed
  qed
qed

section \<open>Facts about the history and the reply\<close>

lemma slice_last_append:
  "slice_last n (slice_last n ys @ xs) = slice_last n (ys @ xs)"
proof (cases "length ys \<le> n")
  case True
  then show ?thesis by (simp add: slice_last_def)
next
  case False
  then have "length ys - n + length xs = length ys + length xs - n" by arith
  with False show ?thesis by (simp add: slice_last_def add.commute)
qed

lemma getHistory_Some: "getHistory (Some h) = h"
  by (simp add: getHistory_def)

lemma getHistory_addMessage:
  "getHistory (addMessage m st) = slice_last MAX_MESSAGES (getHistory st @ [m])"
  by (simp add: addMessage_def getHistory_def slice_last_def Let_def)

lemma getHistory_fold_addMessage:
  "ms \<noteq> [] \<Longrightarrow>
   getHistory (fold addMessage ms st) = slice_last MAX_MESSAGES (getHistory st @ ms)"
proof (induction ms arbitrary: st)
  case Nil
  then show ?case by simp
next
  case (Cons m ms)
  show ?case
  proof (cases "ms = []")
    case True
    then show ?thesis by (simp add: getHistory_addMessage)
  next
    case False
    then have "getHistory (fold addMessage ms (addMessage m st)) =
      slice_last MAX_MESSAGES (getHistory (addMessage m st) @ ms)"
      by (rule Cons.IH)
    then show ?thesis
      by (simp add: getHistory_addMessage slice_last_append)
  qed
qed

lemma addMessage_short:
  "length (getHistory st) < 20 \<Longrightarrow> getHistory (addMessage m st) = getHistory st @ [m]"
  by (simp add: getHistory_addMessage slice_last_def MAX_MESSAGES_def)

lemma getHistory_addMessage2:
  "getHistory (addMessage a (addMessage u st))
     = drop (length (getHistory st) + 2 - 20) (getHistory st) @ [u, a]"
proof -
  have "getHistory (addMessage a (addMessage u st))
      = slice_last MAX_MESSAGES ((getHistory st @ [u]) @ [a])"
    by (simp only: getHistory_addMessage slice_last_append)
  then show ?thesis
    by (simp add: slice_last_def MAX_MESSAGES_def)
qed


lemma addMessage_not_empty: "addMessage m st \<noteq> Some []"
  by (simp add: addMessage_def slice_last_def MAX_MESSAGES_def Let_def)

lemma APOLOGY_nonempty: "APOLOGY \<noteq> []"
  by (simp add: APOLOGY_def)



lemma processMessage_store:
  "fst (snd (processMessage w p st)) = st
   \<or> (\<exists>b ts. b \<noteq> [] \<and> fst (snd (processMessage w p st)) =
         addMessage \<lparr>role = Assistant,
             content = fst (generateResponse w (getHistory st @
                [\<lparr>role = User, content = b, timestamp = ts\<rparr>])),
             timestamp = now w\<rparr>
           (addMessage \<lparr>role = User, content = b, timestamp = ts\<rparr> st))"
proof (cases w p st rule: processMessage_cases)
  case invalid
  then show ?thesis by simp
next
  case missing
  then show ?thesis by simp
next
  case (unsupported c ct cts m ms)
  then show ?thesis by (simp add: processMessage_unsupported)
next
  case (plain c ct cts m ms b)
  from processMessage_text [OF plain, of w st] plain(6) show ?thesis
    by (auto simp add: Let_def)
qed

lemma gen_messages_generateArgs [simp]: "gen_messages (generateArgs msgs) = map toCore msgs"
  by (simp add: generateArgs_def)

lemma generatorInputs_text [simp]:
  "generatorInputs [Fetch r, GenerateText a, Fetch r'] = [gen_messages a]"
  by (simp add: generatorInputs_def)

lemma textSends_text [simp]:
  "textSends [Fetch (ReadRequest i ty), GenerateText a, Fetch (TextMessageRequest t b)] = [(b, t)]"
  by (simp add: textSends_def)

section \<open>Facts about the example inputs\<close>

lemma firstChange_example [simp]:
  "firstChange (example_payload cs ms) = Some \<lparr>change_value = example_value cs ms\<rparr>"
  by (simp add: firstChange_def example_payload_def first_def)

lemma example_value_sel [simp]:
  "contacts (example_value cs ms) = cs" "messages (example_value cs ms) = ms"
  by (simp_all add: example_value_def)

lemma length_example_history: "length (example_history n) = n"
  by (simp add: example_history_def)

lemma drop_example_history: "drop k (example_history n) = map example_message [k..<n]"
  by (simp add: example_history_def drop_map)

lemma text_message_sel [simp]:
  "msg_type (text_message b) = TypeText" "msg_text_body (text_message b) = Some b"
  "msg_id (text_message b) = ''wamid.1''" "msg_timestamp (text_message b) = ''1700000000''"
  by (simp_all add: text_message_def)

lemma image_message_sel [simp]:
  "msg_type image_message = TypeImage" "msg_text_body image_message = None"
  "msg_id image_message = ''wamid.2''"
  by (simp_all add: image_message_def)

lemma wa_id_example [simp]: "wa_id example_contact = ''15550100''"
  by (simp add: example_contact_def)

lemma example_world_sel [simp]:
  "fetch (example_world f g) = f" "generateText (example_world f g) = g"
  "dateOfSeconds (example_world f g) s = Date 1700000000000"
  "now (example_world f g) = Date 1700000001000"
  by (simp_all add: example_world_def)

lemma hello_shape:
  "firstChange hello_payload =
     Some \<lparr>change_value = example_value (Some [example_contact]) (Some [text_message ''Hello''])\<rparr>"
  by (simp add: hello_payload_def)

lemma image_shape:
  "firstChange image_payload =
     Some \<lparr>change_value = example_value (Some [example_contact]) (Some [image_message])\<rparr>"
  by (simp add: image_payload_def)

lemma send_fails [simp]:
  "fst (sendTextMessage (example_world fetch_send_fails g) msg r)
     = Inl ''Failed to send WhatsApp message: token expired''"
  by (simp add: sendTextMessage_def fetch_send_fails_def http_error_def Let_def)

lemma send_ok [simp]:
  "fst (sendTextMessage (example_world fetch_all_ok g) msg r) = Inr ()"
  "fst (sendTextMessage (example_world fetch_read_fails g) msg r) = Inr ()"
  by (simp_all add: sendTextMessage_def fetch_all_ok_def fetch_read_fails_def http_ok_def Let_def)

section \<open>C1: the sliding window\<close>

text \<open>
  C1.  Appending the messages \<open>ms\<close> one after the other with \<^verbatim>\<open>addMessage\<close>, starting
  from an empty history, leaves exactly the last \<open>min (length ms) 20\<close> of them, in the
  order they were appended.  Whatever the storage held before, after at least one append
  the history has at most 20 entries.
\<close>

theorem C1_sliding_window:
  assumes "getHistory st = []"
  shows "getHistory (fold addMessage ms st) = drop (length ms - 20) ms
       \<and> length (getHistory (fold addMessage ms st)) = min (length ms) 20
       \<and> (\<forall>st'. ms \<noteq> [] \<longrightarrow> length (getHistory (fold addMessage ms st')) \<le> 20)"
proof -
  have a: "getHistory (fold addMessage ms st) = drop (length ms - 20) ms"
  proof (cases "ms = []")
    case True
    with assms show ?thesis by simp
  next
    case False
    with assms show ?thesis
      by (simp add: getHistory_fold_addMessage slice_last_def MAX_MESSAGES_def)
  qed
  have b: "length (getHistory (fold addMessage ms st')) \<le> 20" if "ms \<noteq> []" for st'
    using that by (simp add: getHistory_fold_addMessage slice_last_def MAX_MESSAGES_def)
  from a b show ?thesis by auto
qed

theorem C1_sliding_window_witness:
  "getHistory None = []
   \<and> getHistory (fold addMessage (example_history 23) None) = map example_message [3..<23]
   \<and> length (getHistory (fold addMessage (example_history 23) None)) = 20
   \<and> length (getHistory (fold addMessage (example_history 23)
        (Some (example_history 30)))) \<le> 20"
proof -
  have h: "getHistory None = []" by (simp add: getHistory_def)
  have n: "example_history 23 \<noteq> []"
    using length_example_history [of 23] by auto
  from C1_sliding_window [OF h, of "example_history 23"] n h show ?thesis
    by (simp add: length_example_history drop_example_history)
qed

section \<open>C2: what the Response Generator is given\<close>

text \<open>
  C2, as the claim states it, fails: with 20 messages already stored, the Generator is
  handed 21 messages (the 20 loaded before the append and the new user message), while
  the history persisted after the append holds 20 (the oldest one is trimmed away).
\<close>

theorem C2_counterexample:
  "generatorInputs (snd (snd (processMessage (example_world fetch_all_ok generate_hi)
       hello_payload (Some (example_history 20)))))
     = [map toCore (example_history 20 @ [user_hello])]
   \<and> getHistory (addMessage user_hello (Some (example_history 20)))
     = drop 1 (example_history 20) @ [user_hello]
   \<and> map toCore (example_history 20 @ [user_hello])
     \<noteq> map toCore (getHistory (addMessage user_hello (Some (example_history 20))))"
proof -
  let ?w = "example_world fetch_all_ok generate_hi"
  have "processMessage ?w hello_payload (Some (example_history 20)) =
     (let u = \<lparr>role = User, content = ''Hello'',
                timestamp = dateOfSeconds ?w (msg_timestamp (text_message ''Hello''))\<rparr>;
          reply = fst (generateResponse ?w (getHistory (Some (example_history 20)) @ [u]));
          a = \<lparr>role = Assistant, content = reply, timestamp = now ?w\<rparr>
      in ((case fst (sendTextMessage ?w reply (wa_id example_contact)) of
             Inl x \<Rightarrow> failure ''Failed to send WhatsApp message''
           | Inr x \<Rightarrow> \<lparr>success = True, error = None, response_text = Some reply\<rparr>),
          addMessage a (addMessage u (Some (example_history 20))),
          [Fetch (ReadRequest (msg_id (text_message ''Hello'')) True),
           GenerateText (generateArgs (getHistory (Some (example_history 20)) @ [u])),
           Fetch (TextMessageRequest (wa_id example_contact) reply)]))"
    by (rule processMessage_text [OF hello_shape]) simp_all
  then have a: "generatorInputs (snd (snd (processMessage ?w hello_payload
       (Some (example_history 20))))) = [map toCore (example_history 20 @ [user_hello])]"
    by (simp add: Let_def getHistory_Some user_hello_def)
  have b: "getHistory (addMessage user_hello (Some (example_history 20)))
     = drop 1 (example_history 20) @ [user_hello]"
    by (simp add: getHistory_addMessage slice_last_def MAX_MESSAGES_def getHistory_Some
        length_example_history)
  have l1: "length (map toCore (example_history 20 @ [user_hello])) = 21"
    by (simp add: length_example_history)
  have l2: "length (map toCore (getHistory (addMessage user_hello
      (Some (example_history 20))))) = 20"
    by (simp add: b length_example_history)
  have c: "map toCore (example_history 20 @ [user_hello])
     \<noteq> map toCore (getHistory (addMessage user_hello (Some (example_history 20))))"
  proof
    assume "map toCore (example_history 20 @ [user_hello])
      = map toCore (getHistory (addMessage user_hello (Some (example_history 20))))"
    then have "length (map toCore (example_history 20 @ [user_hello]))
      = length (map toCore (getHistory (addMessage user_hello (Some (example_history 20)))))"
      by (rule arg_cong)
    with l1 l2 show False by simp
  qed
  from a b c show ?thesis by simp
qed

text \<open>
  C2, amended.  For an inbound text message the Generator is called once, with the role
  and content of the history loaded before the append followed by the new user message
  \<open>u\<close>.  The storage \<^verbatim>\<open>processMessage\<close> leaves is the storage after the append of \<open>u\<close>
  with the assistant message \<open>a\<close> appended to it, so its history is the last 20 entries
  of the old history followed by \<open>u\<close> and \<open>a\<close>.  The history persisted by the append of
  \<open>u\<close> is the last 20 entries of the sequence the Generator is given, and the two agree
  whenever fewer than 20 messages were stored before.
\<close>

theorem C2_generator_input:
  assumes "firstChange p = Some c"
    and "contacts (change_value c) = Some (ct # cts)"
    and "messages (change_value c) = Some (m # ms)"
    and "msg_type m = TypeText" and "msg_text_body m = Some b" and "b \<noteq> []"
    and "u = \<lparr>role = User, content = b, timestamp = dateOfSeconds w (msg_timestamp m)\<rparr>"
    and "a = \<lparr>role = Assistant, content = fst (generateResponse w (getHistory st @ [u])),
               timestamp = now w\<rparr>"
  shows "generatorInputs (snd (snd (processMessage w p st))) = [map toCore (getHistory st @ [u])]
     \<and> fst (snd (processMessage w p st)) = addMessage a (addMessage u st)
     \<and> getHistory (fst (snd (processMessage w p st)))
         = drop (length (getHistory st) + 2 - 20) (getHistory st) @ [u, a]
     \<and> getHistory (addMessage u st) = drop (length (getHistory st) + 1 - 20) (getHistory st @ [u])
     \<and> (length (getHistory st) < 20 \<longrightarrow>
          generatorInputs (snd (snd (processMessage w p st)))
            = [map toCore (getHistory (addMessage u st))])"
proof -
  have 1: "generatorInputs (snd (snd (processMessage w p st)))
      = [map toCore (getHistory st @ [u])]"
    using assms(7) by (simp add: processMessage_text [OF assms(1-6)] Let_def)
  have 2: "fst (snd (processMessage w p st)) = addMessage a (addMessage u st)"
    using assms(7,8) by (simp add: processMessage_text [OF assms(1-6)] Let_def)
  have 3: "getHistory (fst (snd (processMessage w p st)))
         = drop (length (getHistory st) + 2 - 20) (getHistory st) @ [u, a]"
    by (simp only: 2 getHistory_addMessage2)
  have 4: "getHistory (addMessage u st)
      = drop (length (getHistory st) + 1 - 20) (getHistory st @ [u])"
    by (simp add: getHistory_addMessage slice_last_def MAX_MESSAGES_def)
  have 5: "generatorInputs (snd (snd (processMessage w p st)))
            = [map toCore (getHistory (addMessage u st))]"
    if "length (getHistory st) < 20"
    using that by (simp add: 1 addMessage_short)
  from 1 2 3 4 5 show ?thesis by blast
qed

theorem C2_generator_input_witness:
  "generatorInputs (snd (snd (processMessage (example_world fetch_all_ok generate_hi)
       hello_payload (Some (example_history 3)))))
     = [map toCore (example_history 3 @ [user_hello])]
   \<and> fst (snd (processMessage (example_world fetch_all_ok generate_hi)
       hello_payload (Some (example_history 3))))
     = addMessage hi_reply (addMessage user_hello (Some (example_history 3)))
   \<and> getHistory (fst (snd (processMessage (example_world fetch_all_ok generate_hi)
       hello_payload (Some (example_history 3)))))
     = example_history 3 @ [user_hello, hi_reply]
   \<and> getHistory (addMessage user_hello (Some (example_history 3)))
     = example_history 3 @ [user_hello]
   \<and> generatorInputs (snd (snd (processMessage (example_world fetch_all_ok generate_hi)
       hello_payload (Some (example_history 3)))))
     = [map toCore (getHistory (addMessage user_hello (Some (example_history 3))))]"
proof -
  let ?w = "example_world fetch_all_ok generate_hi"
  have u: "user_hello = \<lparr>role = User, content = ''Hello'',
      timestamp = dateOfSeconds ?w (msg_timestamp (text_message ''Hello''))\<rparr>"
    by (simp add: user_hello_def)
  have a: "hi_reply = \<lparr>role = Assistant,
      content = fst (generateResponse ?w (getHistory (Some (example_history 3)) @ [user_hello])),
      timestamp = now ?w\<rparr>"
    by (simp add: hi_reply_def fst_generateResponse generate_hi_def)
  from C2_generator_input [OF hello_shape _ _ _ _ _ u a, of example_contact "[]" "[]"]
  show ?thesis
    by (auto simp add: getHistory_Some length_example_history)
qed

section \<open>C3: payloads without a contact or a message\<close>

text \<open>
  C3, as the claim states it, fails: when both arrays are present and one of them is
  empty, the error is \<^verbatim>\<open>Missing contact or message\<close>, not \<^verbatim>\<open>Invalid webhook data\<close>.
\<close>

theorem C3_counterexample:
  "processMessage (example_world fetch_all_ok generate_hi)
     (example_payload (Some [example_contact]) (Some [])) None
   = (failure ''Missing contact or message'', None, [])
   \<and> failure ''Missing contact or message'' \<noteq> failure ''Invalid webhook data''"
  by (simp add: processMessage_def first_def failure_def)

text \<open>
  C3, amended.  When there is no first change, or its value lacks \<^verbatim>\<open>contacts\<close> or
  \<^verbatim>\<open>messages\<close>, \<^verbatim>\<open>processMessage\<close> fails with \<^verbatim>\<open>Invalid webhook data\<close>; when both arrays
  are present and one is empty it fails with \<^verbatim>\<open>Missing contact or message\<close>.  In both
  cases the storage is untouched and no call is made, and the handler of
  \<^verbatim>\<open>POST /webhook\<close> answers 200 without touching the storage of any object.
\<close>

theorem C3_invalid_payload:
  "((case firstChange p of None \<Rightarrow> True
     | Some c \<Rightarrow> contacts (change_value c) = None \<or> messages (change_value c) = None)
    \<longrightarrow> processMessage w p st = (failure ''Invalid webhook data'', st, [])
      \<and> post_webhook w p ss =
          (\<lparr>status = 200, json = MessageBody ''Not a valid message object''\<rparr>, ss, []))
   \<and> (\<forall>c cts ms. firstChange p = Some c \<and> contacts (change_value c) = Some cts
         \<and> messages (change_value c) = Some ms \<and> (cts = [] \<or> ms = [])
    \<longrightarrow> processMessage w p st = (failure ''Missing contact or message'', st, [])
      \<and> post_webhook w p ss =
          (\<lparr>status = 200, json = MessageBody ''Invalid webhook data''\<rparr>, ss, []))"
  using processMessage_invalid [of p w st] post_webhook_invalid [of p w ss]
    processMessage_missing [of p _ _ _ w st] post_webhook_missing [of p _ _ _ w ss]
  by blast

theorem C3_invalid_payload_witness:
  "processMessage (example_world fetch_all_ok generate_hi)
     (example_payload (Some [example_contact]) None) (Some (example_history 3))
   = (failure ''Invalid webhook data'', Some (example_history 3), [])
   \<and> post_webhook (example_world fetch_all_ok generate_hi)
     (example_payload (Some [example_contact]) None) (\<lambda>k. Some (example_history 3))
   = (\<lparr>status = 200, json = MessageBody ''Not a valid message object''\<rparr>,
      \<lambda>k. Some (example_history 3), [])
   \<and> processMessage (example_world fetch_all_ok generate_hi)
     (example_payload (Some []) (Some [text_message ''Hello''])) (Some (example_history 3))
   = (failure ''Missing contact or message'', Some (example_history 3), [])
   \<and> post_webhook (example_world fetch_all_ok generate_hi)
     (example_payload (Some []) (Some [text_message ''Hello''])) (\<lambda>k. Some (example_history 3))
   = (\<lparr>status = 200, json = MessageBody ''Invalid webhook data''\<rparr>,
      \<lambda>k. Some (example_history 3), [])"
  using C3_invalid_payload [of "example_payload (Some [example_contact]) None"
      "example_world fetch_all_ok generate_hi" "Some (example_history 3)"
      "\<lambda>k. Some (example_history 3)"]
    C3_invalid_payload [of "example_payload (Some []) (Some [text_message ''Hello''])"
      "example_world fetch_all_ok generate_hi" "Some (example_history 3)"
      "\<lambda>k. Some (example_history 3)"]
  by simp

section \<open>C4: messages that are not text\<close>

text \<open>
  C4, as the claim states it, fails: the send of the text-only notice is not guarded, so
  when it throws, the result carries the message of that error instead of
  \<^verbatim>\<open>Unsupported message type\<close>.
\<close>

theorem C4_counterexample:
  "processMessage (example_world fetch_send_fails generate_hi) image_payload
      (Some (example_history 3))
   = (failure ''Failed to send WhatsApp message: token expired'', Some (example_history 3),
      [Fetch (ReadRequest ''wamid.2'' True),
       Fetch (TextMessageRequest ''15550100'' TEXT_ONLY_NOTICE)])
   \<and> error (failure ''Failed to send WhatsApp message: token expired'')
       \<noteq> Some ''Unsupported message type''"
proof -
  have "processMessage (example_world fetch_send_fails generate_hi) image_payload
      (Some (example_history 3))
   = (failure ''Failed to send WhatsApp message: token expired'', Some (example_history 3),
      [Fetch (ReadRequest ''wamid.2'' True),
       Fetch (TextMessageRequest ''15550100'' TEXT_ONLY_NOTICE)])"
    by (simp add: processMessage_unsupported [OF image_shape])
  then show ?thesis by (simp add: failure_def)
qed

text \<open>
  C4, amended.  For an inbound message whose type is not text, the storage is unchanged,
  the Generator is not called, and the calls made are the read receipt followed by one
  send of the text-only notice to the sender.  The result is a failure; its error is
  \<^verbatim>\<open>Unsupported message type\<close> when the send of the notice returns, and the message of
  the send's error when it throws.
\<close>

theorem C4_unsupported_type:
  assumes "firstChange p = Some c"
    and "contacts (change_value c) = Some (ct # cts)"
    and "messages (change_value c) = Some (m # ms)"
    and "msg_type m \<noteq> TypeText"
    and "processMessage w p st = (r, st', calls)"
  shows "st' = st
     \<and> calls = [Fetch (ReadRequest (msg_id m) True),
                Fetch (TextMessageRequest (wa_id ct) TEXT_ONLY_NOTICE)]
     \<and> generatorInputs calls = []
     \<and> textSends calls = [(TEXT_ONLY_NOTICE, wa_id ct)]
     \<and> success r = False
     \<and> (fst (sendTextMessage w TEXT_ONLY_NOTICE (wa_id ct)) = Inr ()
          \<longrightarrow> r = failure ''Unsupported message type'')
     \<and> (\<forall>e. fst (sendTextMessage w TEXT_ONLY_NOTICE (wa_id ct)) = Inl e \<longrightarrow> r = failure e)"
proof -
  from assms(4) have "msg_type m \<noteq> TypeText \<or> msg_text_body m = None
      \<or> msg_text_body m = Some []"
    by simp
  from processMessage_unsupported [OF assms(1-3) this, of w st] assms(5)
  show ?thesis
    by (auto simp add: generatorInputs_def textSends_def failure_def split: sum.splits)
qed

theorem C4_unsupported_type_witness:
  "processMessage (example_world fetch_all_ok generate_hi) image_payload
      (Some (example_history 3))
   = (failure ''Unsupported message type'', Some (example_history 3),
      [Fetch (ReadRequest ''wamid.2'' True),
       Fetch (TextMessageRequest ''15550100'' TEXT_ONLY_NOTICE)])
   \<and> generatorInputs [Fetch (ReadRequest ''wamid.2'' True),
       Fetch (TextMessageRequest ''15550100'' TEXT_ONLY_NOTICE)] = []
   \<and> textSends [Fetch (ReadRequest ''wamid.2'' True),
       Fetch (TextMessageRequest ''15550100'' TEXT_ONLY_NOTICE)]
       = [(TEXT_ONLY_NOTICE, ''15550100'')]"
proof -
  let ?w = "example_world fetch_all_ok generate_hi"
  obtain r st' calls where
    run: "processMessage ?w image_payload (Some (example_history 3)) = (r, st', calls)"
    by (cases "processMessage ?w image_payload (Some (example_history 3))") auto
  have "contacts (example_value (Some [example_contact]) (Some [image_message]))
      = Some [example_contact]"
    and "messages (example_value (Some [example_contact]) (Some [image_message]))
      = Some [image_message]"
    and "msg_type image_message \<noteq> TypeText"
    by simp_all
  from C4_unsupported_type [OF image_shape _ _ _ run, of example_contact "[]" image_message "[]"]
  show ?thesis
    using run by auto
qed

section \<open>C5: a failing Generator\<close>

text \<open>
  C5.  When \<^verbatim>\<open>generateText\<close> throws on an inbound text message, the last entry of the
  persisted history is the assistant message holding the fixed apology, the apology is
  what is sent to the user, the result is a success carrying the apology when the send
  returns and the fixed delivery failure when it throws, and the whole outcome (result,
  storage, calls) is that of a run in which the Generator had returned the apology: the
  error \<open>e\<close> appears nowhere.
\<close>

theorem C5_generation_failure_absorbed:
  assumes "firstChange p = Some c"
    and "contacts (change_value c) = Some (ct # cts)"
    and "messages (change_value c) = Some (m # ms)"
    and "msg_type m = TypeText" and "msg_text_body m = Some b" and "b \<noteq> []"
    and "u = \<lparr>role = User, content = b, timestamp = dateOfSeconds w (msg_timestamp m)\<rparr>"
    and "generateText w (generateArgs (getHistory st @ [u])) = Inl e"
    and "processMessage w p st = (r, st', calls)"
  shows "last (getHistory st') = \<lparr>role = Assistant, content = APOLOGY, timestamp = now w\<rparr>
     \<and> textSends calls = [(APOLOGY, wa_id ct)]
     \<and> (fst (sendTextMessage w APOLOGY (wa_id ct)) = Inr ()
          \<longrightarrow> r = \<lparr>success = True, error = None, response_text = Some APOLOGY\<rparr>)
     \<and> (\<forall>x. fst (sendTextMessage w APOLOGY (wa_id ct)) = Inl x
          \<longrightarrow> r = failure ''Failed to send WhatsApp message'')
     \<and> processMessage (w\<lparr>generateText := \<lambda>a. Inr APOLOGY\<rparr>) p st = (r, st', calls)"
proof -
  have g: "fst (generateResponse w (getHistory st @ [u])) = APOLOGY"
    using assms(8) by (simp add: fst_generateResponse)
  let ?w' = "w\<lparr>generateText := \<lambda>a. Inr APOLOGY\<rparr>"
  have g': "fst (generateResponse ?w' (getHistory st @ [u])) = APOLOGY"
    by (simp add: fst_generateResponse APOLOGY_nonempty)
  have s: "sendTextMessage ?w' APOLOGY (wa_id ct) = sendTextMessage w APOLOGY (wa_id ct)"
    by (simp add: sendTextMessage_def)
  have run: "(r, st', calls) =
      ((case fst (sendTextMessage w APOLOGY (wa_id ct)) of
             Inl x \<Rightarrow> failure ''Failed to send WhatsApp message''
           | Inr x \<Rightarrow> \<lparr>success = True, error = None, response_text = Some APOLOGY\<rparr>),
          addMessage \<lparr>role = Assistant, content = APOLOGY, timestamp = now w\<rparr> (addMessage u st),
          [Fetch (ReadRequest (msg_id m) True),
           GenerateText (generateArgs (getHistory st @ [u])),
           Fetch (TextMessageRequest (wa_id ct) APOLOGY)])"
    using processMessage_text [OF assms(1-6), of w st] assms(7,9) g
    by (simp add: Let_def split: sum.splits)
  have run': "processMessage ?w' p st = (r, st', calls)"
    using processMessage_text [OF assms(1-6), of ?w' st] assms(7) g' s run
    by (simp add: Let_def split: sum.splits)
  from run run' show ?thesis
    by (auto simp add: getHistory_addMessage2)
qed

theorem C5_generation_failure_absorbed_witness:
  "processMessage (example_world fetch_all_ok generate_fails) hello_payload None
     = (\<lparr>success = True, error = None, response_text = Some APOLOGY\<rparr>,
        Some [user_hello, apology_reply],
        [Fetch (ReadRequest ''wamid.1'' True),
         GenerateText (generateArgs [user_hello]),
         Fetch (TextMessageRequest ''15550100'' APOLOGY)])
   \<and> last (getHistory (Some [user_hello, apology_reply])) = apology_reply
   \<and> processMessage (example_world fetch_all_ok generate_fails
        \<lparr>generateText := \<lambda>a. Inr APOLOGY\<rparr>) hello_payload None
     = processMessage (example_world fetch_all_ok generate_fails) hello_payload None"
proof -
  let ?w = "example_world fetch_all_ok generate_fails"
  have run: "processMessage ?w hello_payload None
     = (\<lparr>success = True, error = None, response_text = Some APOLOGY\<rparr>,
        Some [user_hello, apology_reply],
        [Fetch (ReadRequest ''wamid.1'' True),
         GenerateText (generateArgs [user_hello]),
         Fetch (TextMessageRequest ''15550100'' APOLOGY)])"
    by (simp add: processMessage_text [OF hello_shape] Let_def fst_generateResponse
        generate_fails_def getHistory_def addMessage_def MAX_MESSAGES_def user_hello_def
        apology_reply_def)
  have u: "user_hello = \<lparr>role = User, content = ''Hello'',
      timestamp = dateOfSeconds ?w (msg_timestamp (text_message ''Hello''))\<rparr>"
    by (simp add: user_hello_def)
  have f: "generateText ?w (generateArgs (getHistory None @ [user_hello])) = Inl ''rate limited''"
    by (simp add: generate_fails_def)
  from C5_generation_failure_absorbed [OF hello_shape _ _ _ _ _ u f run,
      of example_contact "[]" "[]"]
  show ?thesis using run by (simp add: getHistory_Some)
qed

section \<open>C6: a failing delivery\<close>

text \<open>
  C6.  When the send of the assistant reply throws on an inbound text message, the result
  is the failure \<^verbatim>\<open>Failed to send WhatsApp message\<close>, and the persisted history ends
  with the new user message followed by the new assistant message.
\<close>

theorem C6_delivery_failure:
  assumes "firstChange p = Some c"
    and "contacts (change_value c) = Some (ct # cts)"
    and "messages (change_value c) = Some (m # ms)"
    and "msg_type m = TypeText" and "msg_text_body m = Some b" and "b \<noteq> []"
    and "u = \<lparr>role = User, content = b, timestamp = dateOfSeconds w (msg_timestamp m)\<rparr>"
    and "reply = fst (generateResponse w (getHistory st @ [u]))"
    and "a = \<lparr>role = Assistant, content = reply, timestamp = now w\<rparr>"
    and "fst (sendTextMessage w reply (wa_id ct)) = Inl x"
    and "processMessage w p st = (r, st', calls)"
  shows "r = \<lparr>success = False, error = Some ''Failed to send WhatsApp message'',
               response_text = None\<rparr>
     \<and> getHistory st' = drop (length (getHistory st) + 2 - 20) (getHistory st) @ [u, a]
     \<and> textSends calls = [(reply, wa_id ct)]"
  using processMessage_text [OF assms(1-6), of w st] assms(7-11)
  by (simp add: Let_def getHistory_addMessage2 failure_def)

theorem C6_delivery_failure_witness:
  "processMessage (example_world fetch_send_fails generate_hi) hello_payload None
     = (\<lparr>success = False, error = Some ''Failed to send WhatsApp message'',
          response_text = None\<rparr>,
        Some [user_hello, hi_reply],
        [Fetch (ReadRequest ''wamid.1'' True),
         GenerateText (generateArgs [user_hello]),
         Fetch (TextMessageRequest ''15550100'' ''Hi! How can I help?'')])
   \<and> getHistory (Some [user_hello, hi_reply]) = [user_hello, hi_reply]"
proof -
  let ?w = "example_world fetch_send_fails generate_hi"
  have run: "processMessage ?w hello_payload None
     = (failure ''Failed to send WhatsApp message'',
        Some [user_hello, hi_reply],
        [Fetch (ReadRequest ''wamid.1'' True),
         GenerateText (generateArgs [user_hello]),
         Fetch (TextMessageRequest ''15550100'' ''Hi! How can I help?'')])"
    by (simp add: processMessage_text [OF hello_shape] Let_def fst_generateResponse
        generate_hi_def getHistory_def addMessage_def MAX_MESSAGES_def user_hello_def
        hi_reply_def)
  have u: "user_hello = \<lparr>role = User, content = ''Hello'',
      timestamp = dateOfSeconds ?w (msg_timestamp (text_message ''Hello''))\<rparr>"
    by (simp add: user_hello_def)
  have g: "''Hi! How can I help?'' = fst (generateResponse ?w (getHistory None @ [user_hello]))"
    by (simp add: fst_generateResponse generate_hi_def)
  have a: "hi_reply = \<lparr>role = Assistant, content = ''Hi! How can I help?'', timestamp = now ?w\<rparr>"
    by (simp add: hi_reply_def)
  have s: "fst (sendTextMessage ?w ''Hi! How can I help?'' (wa_id example_contact))
      = Inl ''Failed to send WhatsApp message: token expired''"
    by simp
  from C6_delivery_failure [OF hello_shape _ _ _ _ _ u g a s run, of "[]" "[]"]
  show ?thesis using run by (simp add: getHistory_Some)
qed

section \<open>C7: the read receipt does not interfere\<close>

lemma sendTextMessage_cong:
  assumes "\<forall>t b. fetch w1 (TextMessageRequest t b) = fetch w2 (TextMessageRequest t b)"
  shows "sendTextMessage w1 msg r = sendTextMessage w2 msg r"
  using assms by (simp add: sendTextMessage_def)

lemma generateResponse_cong:
  assumes "generateText w1 = generateText w2"
  shows "generateResponse w1 msgs = generateResponse w2 msgs"
  using assms by (simp add: generateResponse_def)

text \<open>
  C7.  Two worlds that answer every text-send request alike and have the same Generator
  and clock, and so differ at most in what happens to the read-receipt request, give the
  same run of \<^verbatim>\<open>processMessage\<close> on every payload and storage: the same result, the
  same storage and the same calls.
\<close>

theorem C7_read_receipt_noninterference:
  assumes "\<forall>t b. fetch w1 (TextMessageRequest t b) = fetch w2 (TextMessageRequest t b)"
    and "generateText w1 = generateText w2"
    and "dateOfSeconds w1 = dateOfSeconds w2"
    and "now w1 = now w2"
  shows "processMessage w1 p st = processMessage w2 p st"
proof -
  have s: "sendTextMessage w1 msg r = sendTextMessage w2 msg r" for msg r
    using assms(1) by (rule sendTextMessage_cong)
  have g: "generateResponse w1 msgs = generateResponse w2 msgs" for msgs
    using assms(2) by (rule generateResponse_cong)
  show ?thesis
    by (simp add: processMessage_def Let_def split_beta snd_markMessageAsRead s g assms(3,4)
        split: option.splits)
qed

theorem C7_read_receipt_noninterference_witness:
  "fetch (example_world fetch_all_ok generate_hi) (ReadRequest ''wamid.1'' True) = http_ok
   \<and> fetch (example_world fetch_read_fails generate_hi) (ReadRequest ''wamid.1'' True)
       = Inl ''network error''
   \<and> processMessage (example_world fetch_read_fails generate_hi) hello_payload None
     = (\<lparr>success = True, error = None, response_text = Some ''Hi! How can I help?''\<rparr>,
        Some [user_hello, hi_reply],
        [Fetch (ReadRequest ''wamid.1'' True),
         GenerateText (generateArgs [user_hello]),
         Fetch (TextMessageRequest ''15550100'' ''Hi! How can I help?'')])
   \<and> processMessage (example_world fetch_all_ok generate_hi) hello_payload None
     = processMessage (example_world fetch_read_fails generate_hi) hello_payload None"
proof -
  have run: "processMessage (example_world fetch_read_fails generate_hi) hello_payload None
     = (\<lparr>success = True, error = None, response_text = Some ''Hi! How can I help?''\<rparr>,
        Some [user_hello, hi_reply],
        [Fetch (ReadRequest ''wamid.1'' True),
         GenerateText (generateArgs [user_hello]),
         Fetch (TextMessageRequest ''15550100'' ''Hi! How can I help?'')])"
    by (simp add: processMessage_text [OF hello_shape] Let_def fst_generateResponse
        generate_hi_def getHistory_def addMessage_def MAX_MESSAGES_def user_hello_def
        hi_reply_def)
  have f: "\<forall>t b. fetch (example_world fetch_all_ok generate_hi) (TextMessageRequest t b)
      = fetch (example_world fetch_read_fails generate_hi) (TextMessageRequest t b)"
    by (simp add: fetch_all_ok_def fetch_read_fails_def)
  from C7_read_receipt_noninterference [OF f, of hello_payload None] run
  show ?thesis
    by (simp add: fetch_all_ok_def fetch_read_fails_def example_world_def)
qed

section \<open>C8: persisted content is never empty\<close>



section \<open>C9: clearing the history\<close>

lemma reachable_not_empty_list: "reachable st \<Longrightarrow> st \<noteq> Some []"
proof (induction rule: reachable.induct)
  case fresh
  show ?case by simp
next
  case (process st w p)
  from processMessage_store [of w p st] process.IH show ?case
    by (auto simp add: addMessage_not_empty)
next
  case (clear st)
  show ?case by (simp add: clearHistory_def)
qed

text \<open>
  C9.  After \<^verbatim>\<open>clearHistory\<close> the loaded history is empty, whatever was stored; clearing
  twice is clearing once; and in every storage state the object can reach (from a fresh
  storage, by \<^verbatim>\<open>processMessage\<close> and \<^verbatim>\<open>clearHistory\<close>) whose history is empty,
  \<^verbatim>\<open>clearHistory\<close> leaves the storage as it is.
\<close>

theorem C9_clearHistory:
  "getHistory (clearHistory st) = []
   \<and> clearHistory (clearHistory st) = clearHistory st
   \<and> (reachable st \<and> getHistory st = [] \<longrightarrow> clearHistory st = st)"
proof -
  have "clearHistory st = st" if "reachable st" and "getHistory st = []"
  proof (cases st)
    case None
    then show ?thesis by (simp add: clearHistory_def)
  next
    case (Some h)
    with that(2) have "st = Some []" by (simp add: getHistory_def)
    with reachable_not_empty_list [OF that(1)] show ?thesis by simp
  qed
  then show ?thesis by (simp add: clearHistory_def getHistory_def)
qed

theorem C9_clearHistory_witness:
  "getHistory (clearHistory (Some (example_history 3))) = []
   \<and> clearHistory (clearHistory (Some (example_history 3)))
       = clearHistory (Some (example_history 3))
   \<and> reachable None \<and> getHistory None = [] \<and> clearHistory None = None
   \<and> reachable (clearHistory (fst (snd (processMessage
         (example_world fetch_all_ok generate_hi) hello_payload None))))
   \<and> clearHistory (clearHistory (fst (snd (processMessage
         (example_world fetch_all_ok generate_hi) hello_payload None))))
     = clearHistory (fst (snd (processMessage
         (example_world fetch_all_ok generate_hi) hello_payload None)))"
proof -
  let ?st = "clearHistory (fst (snd (processMessage
         (example_world fetch_all_ok generate_hi) hello_payload None)))"
  have r: "reachable ?st"
    by (intro reachable.clear reachable.process reachable.fresh)
  have g: "getHistory ?st = []" by (simp add: clearHistory_def getHistory_def)
  from C9_clearHistory [of "Some (example_history 3)"] C9_clearHistory [of None]
    C9_clearHistory [of ?st] r g reachable.fresh
  show ?thesis by (simp add: getHistory_def)
qed

section \<open>C10: first elements only\<close>

lemma first_take_1: "first (take (Suc 0) xs) = first xs"
  by (cases xs) (simp_all add: first_def)

lemma firstChange_firstOnly:
  "firstChange (firstOnly p)
     = map_option (\<lambda>c. \<lparr>change_value = firstOnlyValue (change_value c)\<rparr>) (firstChange p)"
  by (cases "entry p"; cases "changes (hd (entry p))")
     (simp_all add: firstChange_def firstOnly_def first_def Let_def)

lemma firstOnlyValue_sel:
  "contacts (firstOnlyValue v) = map_option (take (Suc 0)) (contacts v)"
  "messages (firstOnlyValue v) = map_option (take (Suc 0)) (messages v)"
  by (simp_all add: firstOnlyValue_def)

lemma bind_first_take_1:
  "Option.bind (map_option (take (Suc 0)) xs) first = Option.bind xs first"
  by (cases xs) (simp_all add: first_take_1)

lemma processMessage_firstOnly: "processMessage w (firstOnly p) st = processMessage w p st"
  by (cases "firstChange p")
     (simp_all add: processMessage_def firstChange_firstOnly firstOnlyValue_sel
       bind_first_take_1 Let_def split: option.splits)

lemma post_webhook_firstOnly: "post_webhook w (firstOnly p) ss = post_webhook w p ss"
  by (cases "firstChange p")
     (simp_all add: post_webhook_def firstChange_firstOnly firstOnlyValue_sel
       bind_first_take_1 processMessage_firstOnly Let_def split: option.splits)

lemma processMessage_calls_bound:
  "length (generatorInputs (snd (snd (processMessage w p st)))) \<le> 1
   \<and> length (textSends (snd (snd (processMessage w p st)))) \<le> 1"
proof (cases w p st rule: processMessage_cases)
  case invalid
  then show ?thesis by (simp add: generatorInputs_def textSends_def)
next
  case missing
  then show ?thesis by (simp add: generatorInputs_def textSends_def)
next
  case (unsupported c ct cts m ms)
  then show ?thesis
    by (simp add: processMessage_unsupported generatorInputs_def textSends_def)
next
  case (plain c ct cts m ms b)
  from processMessage_text [OF plain, of w st] show ?thesis
    by (simp add: Let_def)
qed

lemma processMessage_growth:
  "length (getHistory (fst (snd (processMessage w p st)))) \<le> length (getHistory st) + 2"
  using processMessage_store [of w p st]
  by (auto simp add: getHistory_addMessage2)

lemma post_webhook_calls:
  "snd (snd (post_webhook w p ss)) = []
   \<or> (\<exists>k. snd (snd (post_webhook w p ss)) = snd (snd (processMessage w p (ss k))))"
  by (auto simp add: post_webhook_def Let_def split_beta split: option.splits)

lemma post_webhook_stores:
  assumes "fst (snd (post_webhook w p ss)) k \<noteq> ss k"
  shows "\<exists>c ct cts. firstChange p = Some c \<and> contacts (change_value c) = Some (ct # cts)
           \<and> k = wa_id ct"
  using assms
  by (auto simp add: post_webhook_def Let_def split_beta first_def
      split: option.splits list.splits if_splits)

lemma firstOnly_crowded: "firstOnly crowded_payload = hello_payload"
  by (simp add: firstOnly_def crowded_payload_def hello_payload_def example_payload_def
      firstOnlyValue_def example_value_def)

text \<open>
  C10.  \<^verbatim>\<open>processMessage\<close> and the handler of \<^verbatim>\<open>POST /webhook\<close> give on a payload what
  they give on the payload cut down to its first entry, first change, first contact and
  first message.  One run calls the Generator at most once, sends at most one text,
  adds at most two messages to the history, and the handler changes the storage of no
  object but the one named by the first contact.
\<close>

theorem C10_first_element_only:
  "processMessage w p st = processMessage w (firstOnly p) st
   \<and> post_webhook w p ss = post_webhook w (firstOnly p) ss
   \<and> length (generatorInputs (snd (snd (processMessage w p st)))) \<le> 1
   \<and> length (textSends (snd (snd (processMessage w p st)))) \<le> 1
   \<and> length (getHistory (fst (snd (processMessage w p st)))) \<le> length (getHistory st) + 2
   \<and> length (generatorInputs (snd (snd (post_webhook w p ss)))) \<le> 1
   \<and> length (textSends (snd (snd (post_webhook w p ss)))) \<le> 1
   \<and> (\<forall>k. fst (snd (post_webhook w p ss)) k \<noteq> ss k \<longrightarrow>
         (\<exists>c ct cts. firstChange p = Some c \<and> contacts (change_value c) = Some (ct # cts)
            \<and> k = wa_id ct))"
proof -
  have calls: "length (generatorInputs (snd (snd (post_webhook w p ss)))) \<le> 1
     \<and> length (textSends (snd (snd (post_webhook w p ss)))) \<le> 1"
    using post_webhook_calls [of w p ss] processMessage_calls_bound [of w p]
    by (auto simp add: generatorInputs_def textSends_def)
  show ?thesis
    using calls processMessage_calls_bound [of w p st] processMessage_growth [of w p st]
      post_webhook_stores [of w p ss]
    by (simp add: processMessage_firstOnly post_webhook_firstOnly)
qed

theorem C10_first_element_only_witness:
  "firstOnly crowded_payload = hello_payload
   \<and> processMessage (example_world fetch_all_ok generate_hi) crowded_payload None
     = (\<lparr>success = True, error = None, response_text = Some ''Hi! How can I help?''\<rparr>,
        Some [user_hello, hi_reply],
        [Fetch (ReadRequest ''wamid.1'' True),
         GenerateText (generateArgs [user_hello]),
         Fetch (TextMessageRequest ''15550100'' ''Hi! How can I help?'')])
   \<and> post_webhook (example_world fetch_all_ok generate_hi) crowded_payload (\<lambda>k. None)
     = post_webhook (example_world fetch_all_ok generate_hi) hello_payload (\<lambda>k. None)
   \<and> fst (snd (post_webhook (example_world fetch_all_ok generate_hi) crowded_payload
        (\<lambda>k. None))) ''15550199'' = None"
proof -
  let ?w = "example_world fetch_all_ok generate_hi"
  have run: "processMessage ?w hello_payload None
     = (\<lparr>success = True, error = None, response_text = Some ''Hi! How can I help?''\<rparr>,
        Some [user_hello, hi_reply],
        [Fetch (ReadRequest ''wamid.1'' True),
         GenerateText (generateArgs [user_hello]),
         Fetch (TextMessageRequest ''15550100'' ''Hi! How can I help?'')])"
    by (simp add: processMessage_text [OF hello_shape] Let_def fst_generateResponse
        generate_hi_def getHistory_def addMessage_def MAX_MESSAGES_def user_hello_def
        hi_reply_def)
  have shape: "firstChange crowded_payload = Some \<lparr>change_value = example_value
                    (Some [example_contact, other_contact])
                    (Some [text_message ''Hello'', image_message, text_message ''Again''])\<rparr>"
    by (simp add: firstChange_def crowded_payload_def first_def)
  have other: "''15550199'' \<noteq> wa_id example_contact" by simp
  from C10_first_element_only [of ?w crowded_payload None "\<lambda>k. None"] shape other
  have "fst (snd (post_webhook ?w crowded_payload (\<lambda>k. None))) ''15550199'' = None"
    by auto
  with C10_first_element_only [of ?w crowded_payload None "\<lambda>k. None"] run
  show ?thesis
    by (simp add: firstOnly_crowded)
qed

end
